theory Spec2Isabelle
  imports Main "HOL-Library.Word" "HOL-Library.Sublist"
begin

unbundle bit_operations_syntax

section \<open>Data model\<close>

text \<open>
  A Python \<^verbatim>\<open>str\<close> is represented by its UTF-8 encoding, a \<^typ>\<open>string\<close> of bytes.
  On well-formed text \<^verbatim>\<open>startswith\<close> is \<^const>\<open>prefix\<close>, \<^verbatim>\<open>k in text\<close> is
  \<^const>\<open>sublist\<close> (UTF-8 is self-synchronising), concatenation is \<open>@\<close>, and
  \<^verbatim>\<open>s.encode('utf-8')\<close> is the identity on the representation. Only the slice
  \<^verbatim>\<open>title[:100]\<close> of the notifier counts code points; it is \<open>take_codepoints\<close> below.
\<close>

text \<open>The dictionary built by \<^verbatim>\<open>parse_announcements\<close>; the key \<^verbatim>\<open>id\<close> is \<open>ann_id\<close>.\<close>

record announcement =
  ann_id :: string
  title :: string
  url :: string
  scraped_at :: string
  is_new :: bool

text \<open>The dictionary written by \<^verbatim>\<open>run_once\<close> and read back by \<^verbatim>\<open>load_existing_data\<close>.\<close>

record store =
  announcements :: "announcement list"
  last_check :: string
  total_count :: int

text \<open>Exception classes that the handlers of \<^verbatim>\<open>run_daemon\<close> tell apart.\<close>

datatype exn = KeyboardInterrupt | RequestException | Exception

subsection \<open>config.py\<close>

definition TARGET_URL :: string where
  "TARGET_URL = ''https://hrss.qingdao.gov.cn/ztzl_47/zcpd_47/tzgg_47/''"

definition check_interval :: nat where
  "check_interval = 1200"

definition max_announcements :: int where
  "max_announcements = 50"

definition windows_notification_enabled :: bool where
  "windows_notification_enabled = True"

section \<open>hashlib.md5\<close>

text \<open>
  \<^verbatim>\<open>hashlib.md5(content).hexdigest()\<close> is the MD5 message digest of RFC 1321, printed as
  32 lower-case hexadecimal digits. The state is four 32-bit words; additions wrap.
\<close>

type_synonym w32 = "32 word"

type_synonym md5_state = "w32 \<times> w32 \<times> w32 \<times> w32"

definition md5_K :: "w32 list" where
  "md5_K =
   [0xd76aa478, 0xe8c7b756, 0x242070db, 0xc1bdceee, 0xf57c0faf, 0x4787c62a, 0xa8304613, 0xfd469501,
    0x698098d8, 0x8b44f7af, 0xffff5bb1, 0x895cd7be, 0x6b901122, 0xfd987193, 0xa679438e, 0x49b40821,
    0xf61e2562, 0xc040b340, 0x265e5a51, 0xe9b6c7aa, 0xd62f105d, 0x02441453, 0xd8a1e681, 0xe7d3fbc8,
    0x21e1cde6, 0xc33707d6, 0xf4d50d87, 0x455a14ed, 0xa9e3e905, 0xfcefa3f8, 0x676f02d9, 0x8d2a4c8a,
    0xfffa3942, 0x8771f681, 0x6d9d6122, 0xfde5380c, 0xa4beea44, 0x4bdecfa9, 0xf6bb4b60, 0xbebfbc70,
    0x289b7ec6, 0xeaa127fa, 0xd4ef3085, 0x04881d05, 0xd9d4d039, 0xe6db99e5, 0x1fa27cf8, 0xc4ac5665,
    0xf4292244, 0x432aff97, 0xab9423a7, 0xfc93a039, 0x655b59c3, 0x8f0ccc92, 0xffeff47d, 0x85845dd1,
    0x6fa87e4f, 0xfe2ce6e0, 0xa3014314, 0x4e0811a1, 0xf7537e82, 0xbd3af235, 0x2ad7d2bb, 0xeb86d391]"

definition md5_S :: "nat list" where
  "md5_S =
   [7, 12, 17, 22, 7, 12, 17, 22, 7, 12, 17, 22, 7, 12, 17, 22,
    5, 9, 14, 20, 5, 9, 14, 20, 5, 9, 14, 20, 5, 9, 14, 20,
    4, 11, 16, 23, 4, 11, 16, 23, 4, 11, 16, 23, 4, 11, 16, 23,
    6, 10, 15, 21, 6, 10, 15, 21, 6, 10, 15, 21, 6, 10, 15, 21]"

definition rotl32 :: "w32 \<Rightarrow> nat \<Rightarrow> w32" where
  "rotl32 x c = push_bit c x OR drop_bit (32 - c) x"

definition md5_F :: "nat \<Rightarrow> w32 \<Rightarrow> w32 \<Rightarrow> w32 \<Rightarrow> w32" where
  "md5_F i b c d =
     (if i < 16 then (b AND c) OR (NOT b AND d)
      else if i < 32 then (d AND b) OR (NOT d AND c)
      else if i < 48 then b XOR c XOR d
      else c XOR (b OR NOT d))"

definition md5_G :: "nat \<Rightarrow> nat" where
  "md5_G i =
     (if i < 16 then i
      else if i < 32 then (5 * i + 1) mod 16
      else if i < 48 then (3 * i + 5) mod 16
      else (7 * i) mod 16)"

definition md5_round :: "w32 list \<Rightarrow> md5_state \<Rightarrow> nat \<Rightarrow> md5_state" where
  "md5_round m st i =
     (case st of (a, b, c, d) \<Rightarrow>
        (d, b + rotl32 (a + md5_F i b c d + md5_K ! i + m ! md5_G i) (md5_S ! i), b, c))"

function md5_loop :: "w32 list \<Rightarrow> nat \<Rightarrow> md5_state \<Rightarrow> md5_state" where
  "md5_loop m i st = (if i < 64 then md5_loop m (i + 1) (md5_round m st i) else st)"
  by pat_completeness auto
termination
  by (relation "measure (\<lambda>(m, i, st). 64 - i)") auto

declare md5_loop.simps [simp del]

text \<open>Little-endian reading of (up to) four bytes as one word.\<close>

fun le_word32 :: "string \<Rightarrow> w32" where
  "le_word32 [] = 0"
| "le_word32 (c # cs) = of_char c + push_bit 8 (le_word32 cs)"

fun chunks :: "nat \<Rightarrow> 'a list \<Rightarrow> 'a list list" where
  "chunks n [] = []"
| "chunks n (x # xs) =
     (if n = 0 then [] else take n (x # xs) # chunks n (drop n (x # xs)))"

definition md5_add :: "md5_state \<Rightarrow> md5_state \<Rightarrow> md5_state" where
  "md5_add s t =
     (case s of (a0, b0, c0, d0) \<Rightarrow> case t of (a, b, c, d) \<Rightarrow>
        (a0 + a, b0 + b, c0 + c, d0 + d))"

definition md5_block :: "md5_state \<Rightarrow> string \<Rightarrow> md5_state" where
  "md5_block st blk = md5_add st (md5_loop (map le_word32 (chunks 4 blk)) 0 st)"

definition le_bytes64 :: "64 word \<Rightarrow> string" where
  "le_bytes64 w = map (\<lambda>k. char_of (uint (drop_bit (8 * k) w))) [0, 1, 2, 3, 4, 5, 6, 7]"

text \<open>
  Padding: one byte 0x80, zero bytes up to 56 modulo 64, then the length in bits as a
  64-bit little-endian number (wrapping at \<open>2 ^ 64\<close>).
\<close>

definition md5_pad :: "string \<Rightarrow> string" where
  "md5_pad msg =
     msg @ [CHR 0x80]
         @ replicate ((119 - length msg mod 64) mod 64) (CHR 0x00)
         @ le_bytes64 (8 * of_nat (length msg))"

definition md5_init :: md5_state where
  "md5_init = (0x67452301, 0xefcdab89, 0x98badcfe, 0x10325476)"

definition md5 :: "string \<Rightarrow> md5_state" where
  "md5 msg = foldl md5_block md5_init (chunks 64 (md5_pad msg))"

definition hex_digit :: "w32 \<Rightarrow> char" where
  "hex_digit n = ''0123456789abcdef'' ! unat (n AND 0xF)"

definition hex_word :: "w32 \<Rightarrow> string" where
  "hex_word w =
     concat (map (\<lambda>k. [hex_digit (drop_bit (8 * k + 4) w), hex_digit (drop_bit (8 * k) w)])
                 [0, 1, 2, 3])"

definition hexdigest :: "md5_state \<Rightarrow> string" where
  "hexdigest st =
     (case st of (a, b, c, d) \<Rightarrow> hex_word a @ hex_word b @ hex_word c @ hex_word d)"

section \<open>scraper.py: the parser\<close>

text \<open>The keyword list of \<^verbatim>\<open>is_announcement_link\<close>, in UTF-8.\<close>

definition kw_tongzhi :: string where
  "kw_tongzhi = [CHR 0xE9, CHR 0x80, CHR 0x9A, CHR 0xE7, CHR 0x9F, CHR 0xA5]"

definition kw_gonggao :: string where
  "kw_gonggao = [CHR 0xE5, CHR 0x85, CHR 0xAC, CHR 0xE5, CHR 0x91, CHR 0x8A]"

definition kw_guanyu :: string where
  "kw_guanyu = [CHR 0xE5, CHR 0x85, CHR 0xB3, CHR 0xE4, CHR 0xBA, CHR 0x8E]"

definition kw_zhicheng :: string where
  "kw_zhicheng = [CHR 0xE8, CHR 0x81, CHR 0x8C, CHR 0xE7, CHR 0xA7, CHR 0xB0]"

definition kw_pingshen :: string where
  "kw_pingshen = [CHR 0xE8, CHR 0xAF, CHR 0x84, CHR 0xE5, CHR 0xAE, CHR 0xA1]"

definition kw_baosong :: string where
  "kw_baosong = [CHR 0xE6, CHR 0x8A, CHR 0xA5, CHR 0xE9, CHR 0x80, CHR 0x81]"

definition link_keywords :: "string list" where
  "link_keywords = [kw_tongzhi, kw_gonggao, kw_guanyu, kw_zhicheng, kw_pingshen, kw_baosong]"

definition is_announcement_link :: "string \<Rightarrow> string \<Rightarrow> bool" where
  "is_announcement_link text href =
     (if text = [] \<or> href = [] then False
      else list_ex (\<lambda>keyword. sublist keyword text) link_keywords)"

definition generate_id :: "string \<Rightarrow> string \<Rightarrow> string" where
  "generate_id ttl u = take 16 (hexdigest (md5 (ttl @ ''_'' @ u)))"

definition get_full_url :: "string \<Rightarrow> string" where
  "get_full_url href =
     (if prefix ''http'' href then href
      else if prefix ''/'' href then ''https://hrss.qingdao.gov.cn'' @ href
      else ''https://hrss.qingdao.gov.cn/ztzl_47/zcpd_47/tzgg_47/'' @ href)"

text \<open>
  An anchor as the loop of \<^verbatim>\<open>parse_announcements\<close> reads it: the value of its
  \<^verbatim>\<open>href\<close> attribute and \<^verbatim>\<open>get_text(strip=True)\<close>. The HTML library
  (\<^verbatim>\<open>BeautifulSoup(html, 'lxml').find_all('a', href=True)\<close>) is a parameter: it maps the
  markup to its anchors in document order, or raises (\<open>None\<close>).
\<close>

type_synonym anchor = "string \<times> string"

type_synonym html_library = "string \<Rightarrow> anchor list option"

text \<open>
  The loop over the links. \<open>clock k\<close> is the reading of
  \<^verbatim>\<open>datetime.now().strftime(...)\<close> taken for the \<open>k\<close>-th appended record.
\<close>

fun parse_links :: "(nat \<Rightarrow> string) \<Rightarrow> nat \<Rightarrow> anchor list \<Rightarrow> announcement list" where
  "parse_links clock k [] = []"
| "parse_links clock k (link # links) =
     (case link of (href, text) \<Rightarrow>
        if is_announcement_link text href
        then \<lparr>ann_id = generate_id text href, title = text, url = get_full_url href,
              scraped_at = clock k, is_new = True\<rparr> # parse_links clock (Suc k) links
        else parse_links clock k links)"

text \<open>\<^verbatim>\<open>except Exception: return []\<close> is the \<open>None\<close> branch.\<close>

definition parse_announcements ::
    "html_library \<Rightarrow> (nat \<Rightarrow> string) \<Rightarrow> string \<Rightarrow> announcement list" where
  "parse_announcements soup clock html_content =
     (case soup html_content of
        None \<Rightarrow> []
      | Some links \<Rightarrow> parse_links clock 0 links)"

section \<open>scraper.py: the store and the diff\<close>

text \<open>
  What \<^verbatim>\<open>load_existing_data\<close> finds at \<^verbatim>\<open>data_file\<close>: no file, a file that
  \<^verbatim>\<open>open\<close> or \<^verbatim>\<open>json.load\<close> rejects with an exception, or a file that
  \<^verbatim>\<open>json.load\<close> turns into a dictionary.
\<close>

datatype file_state = NoFile | Unreadable | Stored store

definition empty_store :: store where
  "empty_store = \<lparr>announcements = [], last_check = [], total_count = 0\<rparr>"

definition load_existing_data :: "file_state \<Rightarrow> store" where
  "load_existing_data f =
     (case f of
        NoFile \<Rightarrow> empty_store
      | Unreadable \<Rightarrow> empty_store
      | Stored d \<Rightarrow> d)"

text \<open>
  \<^verbatim>\<open>save_data\<close> swallows every exception of the write. A write that fails leaves the
  file in a state chosen by the file system (untouched, truncated, ...).
\<close>

datatype write_result = WriteOk | WriteFailed file_state

definition save_data :: "write_result \<Rightarrow> store \<Rightarrow> file_state" where
  "save_data w d = (case w of WriteOk \<Rightarrow> Stored d | WriteFailed f \<Rightarrow> f)"

text \<open>The loop of \<^verbatim>\<open>detect_new_announcements\<close>, appending to \<open>new_announcements\<close>.\<close>

fun detect_loop :: "string set \<Rightarrow> announcement list \<Rightarrow> announcement list \<Rightarrow> announcement list" where
  "detect_loop existing_ids new_announcements [] = new_announcements"
| "detect_loop existing_ids new_announcements (a # current) =
     detect_loop existing_ids
       (if ann_id a \<notin> existing_ids then new_announcements @ [a] else new_announcements)
       current"

definition detect_new_announcements :: "announcement list \<Rightarrow> store \<Rightarrow> announcement list" where
  "detect_new_announcements current existing_data =
     detect_loop (set (map ann_id (announcements existing_data))) [] current"

text \<open>The Python slice \<^verbatim>\<open>xs[i:]\<close>, for every integer \<open>i\<close>.\<close>

definition slice_from :: "int \<Rightarrow> 'a list \<Rightarrow> 'a list" where
  "slice_from i xs =
     (if i < 0 then drop (length xs - nat (- i)) xs else drop (nat i) xs)"

section \<open>utils/notifier.py\<close>

text \<open>
  The host of the notifier: whether \<^verbatim>\<open>platform.system()\<close> is \<^verbatim>\<open>"Windows"\<close>, and whether
  the call of \<^verbatim>\<open>plyer.notification.notify\<close> returns (rather than raises).
\<close>

record notifier_env =
  platform_is_windows :: bool
  plyer_notify_ok :: bool

text \<open>
  The observable effects of the notifier: a call of \<^verbatim>\<open>notification.notify\<close> with its
  title and message, and the lines it logs (the fixed wording of a line is its constructor).
\<close>

datatype log_line =
    NotWindows
  | ToastSent
  | ToastFailed
  | DetailsHeader
  | DetailTitle nat string
  | DetailUrl string

datatype effect = Toast string string | Log log_line

fun decimal :: "nat \<Rightarrow> string" where
  "decimal n =
     (if n < 10 then [char_of (48 + n)]
      else decimal (n div 10) @ [char_of (48 + n mod 10)])"

declare decimal.simps [simp del]

text \<open>
  The first \<open>n\<close> code points of a UTF-8 string: a byte \<open>10xxxxxx\<close> continues the code
  point before it.
\<close>

fun take_codepoints :: "nat \<Rightarrow> string \<Rightarrow> string" where
  "take_codepoints n [] = []"
| "take_codepoints n (c # cs) =
     (if (of_char c :: nat) div 64 = 2 then c # take_codepoints n cs
      else (case n of 0 \<Rightarrow> [] | Suc m \<Rightarrow> c # take_codepoints m cs))"

definition send_windows_notification ::
    "notifier_env \<Rightarrow> string \<Rightarrow> string \<Rightarrow> bool \<times> effect list" where
  "send_windows_notification ne ttl message =
     (if \<not> windows_notification_enabled then (False, [])
      else if \<not> platform_is_windows ne then (False, [Log NotWindows])
      else if plyer_notify_ok ne then (True, [Toast ttl message, Log ToastSent])
      else (False, [Toast ttl message, Log ToastFailed]))"

definition notification_title :: "nat \<Rightarrow> string" where
  "notification_title n =
     [CHR 0xE9, CHR 0x9D, CHR 0x92, CHR 0xE5, CHR 0xB2, CHR 0x9B, CHR 0xE4, CHR 0xBA, CHR 0xBA,
      CHR 0xE7, CHR 0xA4, CHR 0xBE, CHR 0xE5, CHR 0xB1, CHR 0x80, CHR 0xE6, CHR 0x96, CHR 0xB0,
      CHR 0xE9, CHR 0x80, CHR 0x9A, CHR 0xE7, CHR 0x9F, CHR 0xA5] @ '' ('' @ decimal n
     @ [CHR 0xE6, CHR 0x9D, CHR 0xA1] @ '')''"

definition summary_message :: "nat \<Rightarrow> string" where
  "summary_message n =
     [CHR 0xE5, CHR 0x8F, CHR 0x91, CHR 0xE7, CHR 0x8E, CHR 0xB0] @ decimal n
     @ [CHR 0xE6, CHR 0x9D, CHR 0xA1, CHR 0xE6, CHR 0x96, CHR 0xB0, CHR 0xE9, CHR 0x80, CHR 0x9A,
        CHR 0xE7, CHR 0x9F, CHR 0xA5, CHR 0xEF, CHR 0xBC, CHR 0x8C, CHR 0xE8, CHR 0xAF, CHR 0xB7,
        CHR 0xE6, CHR 0x9F, CHR 0xA5, CHR 0xE7, CHR 0x9C, CHR 0x8B, CHR 0xE6, CHR 0x97, CHR 0xA5,
        CHR 0xE5, CHR 0xBF, CHR 0x97, CHR 0xE8, CHR 0x8E, CHR 0xB7, CHR 0xE5, CHR 0x8F, CHR 0x96,
        CHR 0xE8, CHR 0xAF, CHR 0xA6, CHR 0xE6, CHR 0x83, CHR 0x85]"

definition send_notification :: "notifier_env \<Rightarrow> announcement list \<Rightarrow> bool \<times> effect list" where
  "send_notification ne anns =
     (if anns = [] then (False, [])
      else
        let ttl = notification_title (length anns);
            message = (if length anns = 1 then take_codepoints 100 (title (hd anns))
                       else summary_message (length anns));
            sent = send_windows_notification ne ttl message
        in (fst sent,
            snd sent @ [Log DetailsHeader]
              @ concat (map (\<lambda>(i, a). [Log (DetailTitle i (title a)), Log (DetailUrl (url a))])
                            (enumerate 1 anns))))"

section \<open>scraper.py: one cycle\<close>

text \<open>
  \<^verbatim>\<open>session.get\<close> followed by \<^verbatim>\<open>raise_for_status\<close>: a response body, an exception of
  the class \<^verbatim>\<open>requests.exceptions.RequestException\<close> (transport failure, timeout, HTTP
  error status), or an exception outside that class.
\<close>

datatype http_result = Response string | RequestFailed | OtherFailure

text \<open>\<^verbatim>\<open>fetch_page_content\<close> catches \<^verbatim>\<open>RequestException\<close> only, and returns \<^verbatim>\<open>None\<close>.\<close>

definition fetch_page_content :: "http_result \<Rightarrow> exn + string option" where
  "fetch_page_content h =
     (case h of
        Response text \<Rightarrow> Inr (Some text)
      | RequestFailed \<Rightarrow> Inr None
      | OtherFailure \<Rightarrow> Inl Exception)"

text \<open>
  \<^verbatim>\<open>notify_new_announcements\<close> of the scraper: nothing is sent for an empty list; the
  result of \<^verbatim>\<open>send_notification\<close> only selects a log line.
\<close>

definition notify_new_announcements :: "notifier_env \<Rightarrow> announcement list \<Rightarrow> effect list" where
  "notify_new_announcements ne new_announcements =
     (if new_announcements = [] then [] else snd (send_notification ne new_announcements))"

text \<open>Everything one call of \<^verbatim>\<open>run_once\<close> reads from outside the program.\<close>

record cycle_env =
  http :: http_result
  soup :: html_library
  scrape_clock :: "nat \<Rightarrow> string"
  check_clock :: string
  host :: notifier_env
  disk_write :: write_result

text \<open>
  What one call of \<^verbatim>\<open>run_once\<close> does: the effects of the notifier, the dictionary
  handed to \<^verbatim>\<open>save_data\<close> (if the cycle got that far), and the data file afterwards.
\<close>

record cycle_result =
  effects :: "effect list"
  saved :: "store option"
  file_after :: file_state

definition run_once :: "cycle_env \<Rightarrow> file_state \<Rightarrow> exn + cycle_result" where
  "run_once env f =
     (case fetch_page_content (http env) of
        Inl e \<Rightarrow> Inl e
      | Inr None \<Rightarrow> Inr \<lparr>effects = [], saved = None, file_after = f\<rparr>
      | Inr (Some html_content) \<Rightarrow>
          if html_content = [] then Inr \<lparr>effects = [], saved = None, file_after = f\<rparr>
          else
            let current_announcements =
                  parse_announcements (soup env) (scrape_clock env) html_content;
                existing_data = load_existing_data f;
                new_announcements = detect_new_announcements current_announcements existing_data;
                fx = notify_new_announcements (host env) new_announcements;
                all_announcements =
                  foldl (\<lambda>all new_ann. all @ [new_ann]) (announcements existing_data)
                    new_announcements;
                max_count = max_announcements;
                all_announcements =
                  (if int (length all_announcements) > max_count
                   then slice_from (- max_count) all_announcements
                   else all_announcements);
                updated_data =
                  \<lparr>announcements = all_announcements, last_check = check_clock env,
                   total_count = int (length all_announcements)\<rparr>
            in Inr \<lparr>effects = fx, saved = Some updated_data,
                    file_after = save_data (disk_write env) updated_data\<rparr>)"

section \<open>scraper.py: the daemon loop\<close>

text \<open>
  One iteration of \<^verbatim>\<open>while True\<close> is driven by one event: a cycle with its environment,
  or Ctrl+C arriving in the \<^verbatim>\<open>try\<close> block.
\<close>

datatype event = Cycle cycle_env | CtrlC

definition try_body :: "event \<Rightarrow> file_state \<Rightarrow> exn + cycle_result" where
  "try_body ev f = (case ev of CtrlC \<Rightarrow> Inl KeyboardInterrupt | Cycle env \<Rightarrow> run_once env f)"

datatype action = Sleep nat | Break

definition max_errors :: nat where
  "max_errors = 5"

text \<open>
  The \<^verbatim>\<open>try\<close> statement of the loop: from \<open>error_count\<close> and the outcome of the body to
  the new \<open>error_count\<close> and what the loop does next.
\<close>

definition handle_outcome :: "nat \<Rightarrow> exn + cycle_result \<Rightarrow> nat \<times> action" where
  "handle_outcome error_count r =
     (case r of
        Inr res \<Rightarrow> (0, Sleep check_interval)
      | Inl KeyboardInterrupt \<Rightarrow> (error_count, Break)
      | Inl RequestException \<Rightarrow>
          (if error_count + 1 \<ge> max_errors then (error_count + 1, Break)
           else (error_count + 1, Sleep (min 300 (60 * (error_count + 1)))))
      | Inl Exception \<Rightarrow>
          (if error_count + 1 \<ge> max_errors then (error_count + 1, Break)
           else (error_count + 1, Sleep 60)))"

record daemon =
  error_count :: nat
  data_file :: file_state
  slept :: "nat list"
  stopped :: bool

definition daemon_start :: "file_state \<Rightarrow> daemon" where
  "daemon_start f = \<lparr>error_count = 0, data_file = f, slept = [], stopped = False\<rparr>"

text \<open>The loop, run over the events of a finite prefix of the daemon's life.\<close>

fun run_daemon :: "daemon \<Rightarrow> event list \<Rightarrow> daemon" where
  "run_daemon s [] = s"
| "run_daemon s (ev # evs) =
     (let r = try_body ev (data_file s);
          f = (case r of Inr res \<Rightarrow> file_after res | Inl e \<Rightarrow> data_file s)
      in case handle_outcome (error_count s) r of
           (n, Break) \<Rightarrow> s\<lparr>error_count := n, data_file := f, stopped := True\<rparr>
         | (n, Sleep secs) \<Rightarrow>
             run_daemon (s\<lparr>error_count := n, data_file := f, slept := slept s @ [secs]\<rparr>) evs)"

section \<open>Absolute URLs, as the specification words them\<close>




section \<open>Example inputs\<close>

definition example_clock :: "nat \<Rightarrow> string" where
  "example_clock k = ''2025-01-20 16:06:00''"

text \<open>A page with one candidate link, relative to the site root.\<close>

definition soup_relative :: html_library where
  "soup_relative html_content = Some [(''/a.html'', kw_tongzhi)]"

text \<open>The same link, written as an absolute URL.\<close>

definition soup_absolute :: html_library where
  "soup_absolute html_content = Some [(''https://hrss.qingdao.gov.cn/a.html'', kw_tongzhi)]"

text \<open>A link text with two keywords, and one with none.\<close>

definition notice_title :: string where
  "notice_title = kw_guanyu @ ''XX'' @ kw_tongzhi"

definition other_title :: string where
  "other_title = [CHR 0xE4, CHR 0xB8, CHR 0x8D, CHR 0xE7, CHR 0x9B, CHR 0xB8, CHR 0xE5, CHR 0x85,
     CHR 0xB3, CHR 0xE9, CHR 0x93, CHR 0xBE, CHR 0xE6, CHR 0x8E, CHR 0xA5]"

definition soup_scenario :: html_library where
  "soup_scenario html_content = Some [(''/a.html'', notice_title), (''/b.html'', other_title)]"

definition soup_unrelated :: html_library where
  "soup_unrelated html_content = Some [(''/b.html'', other_title)]"

text \<open>The HTML library raising on the markup.\<close>

definition soup_broken :: html_library where
  "soup_broken html_content = None"


text \<open>A host without desktop notifications, and one where they work.\<close>

definition host_linux :: notifier_env where
  "host_linux = \<lparr>platform_is_windows = False, plyer_notify_ok = False\<rparr>"

definition host_windows :: notifier_env where
  "host_windows = \<lparr>platform_is_windows = True, plyer_notify_ok = True\<rparr>"

text \<open>A cycle that fetches a page, reads its anchors with \<open>lib\<close>, and can write the file.\<close>

definition example_env :: "html_library \<Rightarrow> cycle_env" where
  "example_env lib =
     \<lparr>http = Response ''<html>'', soup = lib, scrape_clock = example_clock,
      check_clock = ''2025-01-20 16:06:01'', host = host_linux, disk_write = WriteOk\<rparr>"

text \<open>A cycle in which the HTTP request fails with a \<^verbatim>\<open>RequestException\<close>.\<close>

definition net_down_env :: cycle_env where
  "net_down_env = (example_env soup_relative)\<lparr>http := RequestFailed\<rparr>"

text \<open>A cycle in which the HTTP request raises an exception of another class.\<close>

definition crash_env :: cycle_env where
  "crash_env = (example_env soup_relative)\<lparr>http := OtherFailure\<rparr>"

text \<open>The record parsed from the page \<open>soup_relative\<close>.\<close>

definition relative_record :: announcement where
  "relative_record =
     \<lparr>ann_id = ''51018c695e52ad48'', title = kw_tongzhi,
      url = ''https://hrss.qingdao.gov.cn/a.html'',
      scraped_at = ''2025-01-20 16:06:00'', is_new = True\<rparr>"

text \<open>A store filled to \<open>max_announcements\<close>, and the same store one cycle later.\<close>

definition old_record :: "nat \<Rightarrow> announcement" where
  "old_record i =
     \<lparr>ann_id = decimal i, title = ''old'', url = TARGET_URL,
      scraped_at = ''2025-01-19 16:06:00'', is_new = True\<rparr>"

definition full_store :: store where
  "full_store =
     \<lparr>announcements = map old_record [0..<50], last_check = ''2025-01-19 16:06:01'',
      total_count = 50\<rparr>"

definition full_store_after :: store where
  "full_store_after =
     \<lparr>announcements = map old_record [1..<50] @ [relative_record],
      last_check = ''2025-01-20 16:06:01'', total_count = 50\<rparr>"

definition relative_effects :: "effect list" where
  "relative_effects =
     [Log NotWindows, Log DetailsHeader, Log (DetailTitle 1 kw_tongzhi),
      Log (DetailUrl ''https://hrss.qingdao.gov.cn/a.html'')]"

definition full_result :: cycle_result where
  "full_result =
     \<lparr>effects = relative_effects, saved = Some full_store_after,
      file_after = Stored full_store_after\<rparr>"




section \<open>Test vectors of MD5\<close>

lemma md5_empty: "hexdigest (md5 []) = ''d41d8cd98f00b204e9800998ecf8427e''"
  by code_simp

lemma md5_abc: "hexdigest (md5 ''abc'') = ''900150983cd24fb0d6963f7d28e17f72''"
  by code_simp

text \<open>A message of 80 bytes, hashed in two blocks (RFC 1321, appendix A.5).\<close>

lemma md5_two_blocks:
  "hexdigest (md5
     ''12345678901234567890123456789012345678901234567890123456789012345678901234567890'') =
   ''57edf4a22be3c955ac49da2e2107b67a''"
  by code_simp

text \<open>The identifiers and the link classification of the example pages.\<close>

lemma id_relative: "generate_id kw_tongzhi ''/a.html'' = ''51018c695e52ad48''"
  by code_simp

lemma id_absolute:
  "generate_id kw_tongzhi ''https://hrss.qingdao.gov.cn/a.html'' = ''10b5b97203fdfa78''"
  by code_simp

lemma link_tongzhi: "href \<noteq> [] \<Longrightarrow> is_announcement_link kw_tongzhi href"
  by (simp add: is_announcement_link_def link_keywords_def kw_tongzhi_def)

lemma link_notice: "is_announcement_link notice_title ''/a.html''"
  by code_simp

lemma link_other: "\<not> is_announcement_link other_title ''/b.html''"
  by code_simp

lemma is_announcement_link_iff:
  "is_announcement_link t href \<longleftrightarrow>
     href \<noteq> [] \<and> t \<noteq> [] \<and> (\<exists>k \<in> set link_keywords. sublist k t)"
  by (auto simp: is_announcement_link_def list_ex_iff)

section \<open>Identifiers\<close>

lemma parse_links_fields:
  "map (\<lambda>r. (ann_id r, title r, url r)) (parse_links clock k links) =
   map (\<lambda>(href, text). (generate_id text href, text, get_full_url href))
       (filter (\<lambda>(href, text). is_announcement_link text href) links)"
  by (induction links arbitrary: k) (auto split: prod.splits)

lemma get_full_url_http: "prefix ''http'' href \<Longrightarrow> get_full_url href = href"
  by (simp add: get_full_url_def)

text \<open>
  C1 (amended). For every announcement candidate produced by the parser, the record's id is
  the first 16 hexadecimal characters of MD5(title + "_" + href), where href is the anchor's
  href attribute as written in the page, before URL resolution; the url field is the
  resolved href. The id is a function of (title, href). On a page whose hrefs all begin
  with "http" the id is also the first 16 hexadecimal characters of MD5(title + "_" + url).
\<close>

theorem C1_id_from_href:
  assumes "lib html = Some links"
  shows "map (\<lambda>r. (ann_id r, title r, url r)) (parse_announcements lib clock html) =
         map (\<lambda>(href, text).
                (take 16 (hexdigest (md5 (text @ ''_'' @ href))), text, get_full_url href))
             (filter (\<lambda>(href, text). is_announcement_link text href) links)
       \<and> ((\<forall>a \<in> set links. prefix ''http'' (fst a)) \<longrightarrow>
            (\<forall>r \<in> set (parse_announcements lib clock html).
               ann_id r = take 16 (hexdigest (md5 (title r @ ''_'' @ url r)))))"
proof -
  let ?rs = "parse_announcements lib clock html"
  let ?cands = "filter (\<lambda>(href, text). is_announcement_link text href) links"
  have fields: "map (\<lambda>r. (ann_id r, title r, url r)) ?rs =
      map (\<lambda>(href, text). (generate_id text href, text, get_full_url href)) ?cands"
    using assms by (simp add: parse_announcements_def parse_links_fields)
  have first: "map (\<lambda>r. (ann_id r, title r, url r)) ?rs =
      map (\<lambda>(href, text).
             (take 16 (hexdigest (md5 (text @ ''_'' @ href))), text, get_full_url href)) ?cands"
    unfolding fields by (simp add: generate_id_def)
  have second: "ann_id r = take 16 (hexdigest (md5 (title r @ ''_'' @ url r)))"
    if abs: "\<forall>a \<in> set links. prefix ''http'' (fst a)" and r: "r \<in> set ?rs" for r
  proof -
    from r have "(ann_id r, title r, url r) \<in> set (map (\<lambda>r. (ann_id r, title r, url r)) ?rs)"
      by (simp add: image_iff) blast
    then obtain href t where mem: "(href, t) \<in> set ?cands"
      and eq: "(ann_id r, title r, url r) = (generate_id t href, t, get_full_url href)"
      unfolding fields by auto
    from mem abs have "prefix ''http'' href" by auto
    then have "get_full_url href = href" by (rule get_full_url_http)
    with eq show ?thesis by (simp add: generate_id_def)
  qed
  from first second show ?thesis by blast
qed

text \<open>The amended C1 on a page with one absolute link.\<close>

theorem C1_id_from_href_witness:
  "soup_absolute ''<html>'' = Some [(''https://hrss.qingdao.gov.cn/a.html'', kw_tongzhi)]
   \<and> prefix ''http'' ''https://hrss.qingdao.gov.cn/a.html''
   \<and> map (\<lambda>r. (ann_id r, title r, url r))
         (parse_announcements soup_absolute example_clock ''<html>'') =
       [(''10b5b97203fdfa78'', kw_tongzhi, ''https://hrss.qingdao.gov.cn/a.html'')]
   \<and> map ann_id (parse_announcements soup_absolute example_clock ''<html>'') =
       map (\<lambda>r. take 16 (hexdigest (md5 (title r @ ''_'' @ url r))))
         (parse_announcements soup_absolute example_clock ''<html>'')"
proof -
  have s: "soup_absolute ''<html>'' = Some [(''https://hrss.qingdao.gov.cn/a.html'', kw_tongzhi)]"
    by (simp add: soup_absolute_def)
  have a: "\<forall>a \<in> set [(''https://hrss.qingdao.gov.cn/a.html'', kw_tongzhi)]. prefix ''http'' (fst a)"
    by simp
  have g: "take 16 (hexdigest (md5 (kw_tongzhi @ ''_'' @ ''https://hrss.qingdao.gov.cn/a.html'')))
           = ''10b5b97203fdfa78''"
    using id_absolute by (simp add: generate_id_def)
  note inst = C1_id_from_href [of soup_absolute "''<html>''" _ example_clock, OF s]
  from inst have fields: "map (\<lambda>r. (ann_id r, title r, url r))
         (parse_announcements soup_absolute example_clock ''<html>'') =
       [(''10b5b97203fdfa78'', kw_tongzhi, ''https://hrss.qingdao.gov.cn/a.html'')]"
    using g by (simp add: link_tongzhi get_full_url_def)
  from inst a have "\<forall>r \<in> set (parse_announcements soup_absolute example_clock ''<html>'').
         ann_id r = take 16 (hexdigest (md5 (title r @ ''_'' @ url r)))"
    by blast
  then have ids: "map ann_id (parse_announcements soup_absolute example_clock ''<html>'') =
       map (\<lambda>r. take 16 (hexdigest (md5 (title r @ ''_'' @ url r))))
         (parse_announcements soup_absolute example_clock ''<html>'')"
    by (simp cong: map_cong)
  from s fields ids show ?thesis by simp
qed

lemma parse_relative:
  "parse_announcements soup_relative example_clock ''<html>'' =
     [\<lparr>ann_id = ''51018c695e52ad48'', title = kw_tongzhi,
       url = ''https://hrss.qingdao.gov.cn/a.html'',
       scraped_at = ''2025-01-20 16:06:00'', is_new = True\<rparr>]"
  using id_relative
  by (simp add: parse_announcements_def soup_relative_def example_clock_def link_tongzhi
      get_full_url_def)

text \<open>
  C1 as stated fails on a page with the link \<^verbatim>\<open>/a.html\<close>: the record's id is the
  fingerprint of the title and \<^verbatim>\<open>/a.html\<close>, not of the title and the resolved url.
\<close>

theorem C1_counterexample:
  "parse_announcements soup_relative example_clock ''<html>'' =
     [\<lparr>ann_id = ''51018c695e52ad48'', title = kw_tongzhi,
       url = ''https://hrss.qingdao.gov.cn/a.html'',
       scraped_at = ''2025-01-20 16:06:00'', is_new = True\<rparr>]
   \<and> take 16 (hexdigest (md5 (kw_tongzhi @ ''_'' @ ''https://hrss.qingdao.gov.cn/a.html'')))
       = ''10b5b97203fdfa78''
   \<and> ''51018c695e52ad48'' \<noteq> ''10b5b97203fdfa78''"
  using parse_relative id_absolute by (simp add: generate_id_def)

section \<open>The diff\<close>

lemma detect_loop_filter:
  "detect_loop ids acc current = acc @ filter (\<lambda>a. ann_id a \<notin> ids) current"
  by (induction current arbitrary: acc) auto

lemma detect_filter:
  "detect_new_announcements current existing =
     filter (\<lambda>r. ann_id r \<notin> ann_id ` set (announcements existing)) current"
  by (simp add: detect_new_announcements_def detect_loop_filter)

text \<open>
  C2. \<open>detect_new_announcements\<close> returns exactly the current records whose id is not the
  id of a stored record, in the order of the current records; against the empty store it
  returns all of them, against a store holding exactly the current records it returns none.
  It is a function of its two arguments only.
\<close>

theorem C2_diff:
  "detect_new_announcements current existing =
     filter (\<lambda>r. ann_id r \<notin> ann_id ` set (announcements existing)) current
   \<and> detect_new_announcements current empty_store = current
   \<and> detect_new_announcements current (existing\<lparr>announcements := current\<rparr>) = []"
  by (simp add: detect_filter empty_store_def)

section \<open>The parser\<close>

text \<open>
  C6. \<open>parse_announcements\<close> always returns a list. When the HTML library raises, the list
  is empty. Otherwise the records are, in document order, those of the anchors whose href
  and text are both non-empty and whose text contains a keyword as a substring; when no
  anchor qualifies the list is empty.
\<close>

theorem C6_parse_total:
  "(lib html = None \<longrightarrow> parse_announcements lib clock html = [])
   \<and> (\<forall>links. lib html = Some links \<longrightarrow>
        map (\<lambda>r. (title r, url r)) (parse_announcements lib clock html) =
          map (\<lambda>(href, text). (text, get_full_url href))
            (filter (\<lambda>(href, text). href \<noteq> [] \<and> text \<noteq> []
                       \<and> (\<exists>k \<in> set link_keywords. sublist k text)) links)
        \<and> ((\<forall>a \<in> set links. \<not> (fst a \<noteq> [] \<and> snd a \<noteq> []
                       \<and> (\<exists>k \<in> set link_keywords. sublist k (snd a)))) \<longrightarrow>
             parse_announcements lib clock html = []))"
proof -
  have cand: "is_announcement_link t href \<longleftrightarrow>
      href \<noteq> [] \<and> t \<noteq> [] \<and> (\<exists>k \<in> set link_keywords. sublist k t)" for t href
    by (auto simp: is_announcement_link_def list_ex_iff)
  have titles: "map (\<lambda>r. (title r, url r)) (parse_links clock k links) =
      map (\<lambda>(href, text). (text, get_full_url href))
        (filter (\<lambda>(href, text). href \<noteq> [] \<and> text \<noteq> []
                       \<and> (\<exists>k \<in> set link_keywords. sublist k text)) links)" for k links
    by (induction links arbitrary: k) (auto simp: cand split: prod.splits)
  have none: "parse_links clock k links = []"
    if "\<forall>a \<in> set links. \<not> (fst a \<noteq> [] \<and> snd a \<noteq> []
                       \<and> (\<exists>k \<in> set link_keywords. sublist k (snd a)))" for k links
    using that by (induction links arbitrary: k) (auto simp: cand split: prod.splits)
  show ?thesis
    using titles none by (simp add: parse_announcements_def)
qed

text \<open>C6 on a failing HTML library, on the two-anchor page and on a page without candidates.\<close>

theorem C6_parse_total_witness:
  "soup_broken ''<html>'' = None
   \<and> parse_announcements soup_broken example_clock ''<html>'' = []
   \<and> soup_scenario ''<html>'' = Some [(''/a.html'', notice_title), (''/b.html'', other_title)]
   \<and> map (\<lambda>r. (title r, url r)) (parse_announcements soup_scenario example_clock ''<html>'') =
       [(notice_title, ''https://hrss.qingdao.gov.cn/a.html'')]
   \<and> soup_unrelated ''<html>'' = Some [(''/b.html'', other_title)]
   \<and> parse_announcements soup_unrelated example_clock ''<html>'' = []"
proof -
  have c1: "notice_title \<noteq> [] \<and> (\<exists>k \<in> set link_keywords. sublist k notice_title)"
    using link_notice by (simp add: is_announcement_link_iff)
  have c2: "\<not> (other_title \<noteq> [] \<and> (\<exists>k \<in> set link_keywords. sublist k other_title))"
    using link_other by (simp add: is_announcement_link_iff)
  have b: "soup_broken ''<html>'' = None"
    by (simp add: soup_broken_def)
  have s: "soup_scenario ''<html>'' = Some [(''/a.html'', notice_title), (''/b.html'', other_title)]"
    by (simp add: soup_scenario_def)
  have u: "soup_unrelated ''<html>'' = Some [(''/b.html'', other_title)]"
    by (simp add: soup_unrelated_def)
  from C6_parse_total [of soup_broken "''<html>''" example_clock]
    C6_parse_total [of soup_scenario "''<html>''" example_clock]
    C6_parse_total [of soup_unrelated "''<html>''" example_clock]
    b s u c1 c2
  show ?thesis
    by (simp add: get_full_url_def)
qed

section \<open>URL resolution\<close>




section \<open>Loading the store\<close>

text \<open>
  C8. \<open>load_existing_data\<close> always returns a store: the empty store (no announcements,
  empty last_check, total_count 0) when the file is missing or cannot be read and decoded,
  and the decoded dictionary otherwise.
\<close>

theorem C8_load:
  "load_existing_data NoFile = \<lparr>announcements = [], last_check = [], total_count = 0\<rparr>
   \<and> load_existing_data Unreadable = \<lparr>announcements = [], last_check = [], total_count = 0\<rparr>
   \<and> load_existing_data (Stored d) = d"
  by (simp add: load_existing_data_def empty_store_def)

section \<open>The notifier\<close>

text \<open>
  C9. \<open>send_notification\<close> on the empty list returns false and has no effect: no call of
  the desktop notification and no log line.
\<close>

theorem C9_notify_empty:
  "send_notification ne [] = (False, [])"
  by (simp add: send_notification_def)

text \<open>The notifier on a Windows host, for one new record.\<close>

lemma notify_one_windows:
  "send_notification host_windows [relative_record] =
     (True,
      [Toast (notification_title 1) kw_tongzhi, Log ToastSent, Log DetailsHeader,
       Log (DetailTitle 1 kw_tongzhi), Log (DetailUrl ''https://hrss.qingdao.gov.cn/a.html'')])"
  by code_simp

lemma notification_title_one:
  "notification_title 1 =
     [CHR 0xE9, CHR 0x9D, CHR 0x92, CHR 0xE5, CHR 0xB2, CHR 0x9B, CHR 0xE4, CHR 0xBA, CHR 0xBA,
      CHR 0xE7, CHR 0xA4, CHR 0xBE, CHR 0xE5, CHR 0xB1, CHR 0x80, CHR 0xE6, CHR 0x96, CHR 0xB0,
      CHR 0xE9, CHR 0x80, CHR 0x9A, CHR 0xE7, CHR 0x9F, CHR 0xA5] @ '' (1'' @
     [CHR 0xE6, CHR 0x9D, CHR 0xA1] @ '')''"
  by code_simp

section \<open>One cycle\<close>

lemma append_loop: "foldl (\<lambda>all new_ann. all @ [new_ann]) xs ys = xs @ ys"
  by (induction ys arbitrary: xs) simp_all

lemma evict_drop:
  "(if int (length xs) > max_announcements then slice_from (- max_announcements) xs else xs) =
   drop (length xs - nat max_announcements) xs"
  by (simp add: slice_from_def max_announcements_def)

lemma run_once_saved:
  assumes "run_once env f = Inr res" and "saved res = Some d"
  shows "\<exists>html. http env = Response html \<and> html \<noteq> [] \<and>
           (let old = announcements (load_existing_data f);
                new = detect_new_announcements
                        (parse_announcements (soup env) (scrape_clock env) html)
                        (load_existing_data f);
                kept = drop (length (old @ new) - nat max_announcements) (old @ new)
            in d = \<lparr>announcements = kept, last_check = check_clock env,
                      total_count = int (length kept)\<rparr>
               \<and> file_after res = save_data (disk_write env) d)"
proof (cases "http env")
  case (Response html)
  show ?thesis
  proof (cases "html = []")
    case True
    with Response assms show ?thesis
      by (auto simp: run_once_def fetch_page_content_def)
  next
    case False
    with Response assms show ?thesis
      unfolding run_once_def fetch_page_content_def Let_def append_loop evict_drop
      by auto
  qed
next
  case RequestFailed
  with assms show ?thesis
    by (auto simp: run_once_def fetch_page_content_def)
next
  case OtherFailure
  with assms show ?thesis
    by (auto simp: run_once_def fetch_page_content_def)
qed

lemma run_full: "run_once (example_env soup_relative) (Stored full_store) = Inr full_result"
  by code_simp


lemma length_kept:
  "int (length (drop (length xs - nat max_announcements) xs)) \<le> max_announcements"
  by (simp add: max_announcements_def)

text \<open>
  C4. Whenever a cycle hands a dictionary to \<open>save_data\<close>, its announcements are at most
  \<open>max_announcements\<close> many, and they are the last \<open>max_announcements\<close> entries of the
  previously stored records followed by the new records of the cycle, in that order: the
  oldest entries are the ones dropped.
\<close>

theorem C4_eviction:
  assumes "run_once env f = Inr res" and "saved res = Some d"
  shows "int (length (announcements d)) \<le> max_announcements
       \<and> (\<exists>html. http env = Response html \<and>
            (let old = announcements (load_existing_data f);
                 new = detect_new_announcements
                         (parse_announcements (soup env) (scrape_clock env) html)
                         (load_existing_data f)
             in announcements d = drop (length (old @ new) - nat max_announcements) (old @ new)))"
proof -
  from run_once_saved [OF assms] obtain html where h: "http env = Response html"
    and d: "d = \<lparr>announcements =
        drop (length (announcements (load_existing_data f) @
                    detect_new_announcements
                      (parse_announcements (soup env) (scrape_clock env) html)
                      (load_existing_data f)) - nat max_announcements)
           (announcements (load_existing_data f) @
            detect_new_announcements
              (parse_announcements (soup env) (scrape_clock env) html)
              (load_existing_data f)),
         last_check = check_clock env,
         total_count = int (length (drop (length (announcements (load_existing_data f) @
                    detect_new_announcements
                      (parse_announcements (soup env) (scrape_clock env) html)
                      (load_existing_data f)) - nat max_announcements)
           (announcements (load_existing_data f) @
            detect_new_announcements
              (parse_announcements (soup env) (scrape_clock env) html)
              (load_existing_data f))))\<rparr>"
    unfolding Let_def by blast
  define all_announcements where "all_announcements =
     announcements (load_existing_data f) @
       detect_new_announcements
         (parse_announcements (soup env) (scrape_clock env) html) (load_existing_data f)"
  from d have kept: "announcements d =
      drop (length all_announcements - nat max_announcements) all_announcements"
    unfolding all_announcements_def [symmetric] by simp
  then have "int (length (announcements d)) \<le> max_announcements"
    using length_kept [of all_announcements] by simp
  moreover from h kept have "\<exists>html. http env = Response html \<and>
            (let old = announcements (load_existing_data f);
                 new = detect_new_announcements
                         (parse_announcements (soup env) (scrape_clock env) html)
                         (load_existing_data f)
             in announcements d = drop (length (old @ new) - nat max_announcements) (old @ new))"
    unfolding Let_def all_announcements_def by blast
  ultimately show ?thesis ..
qed

text \<open>C4 on a store of 50 records and a page with one new record: the oldest record goes.\<close>

theorem C4_eviction_witness:
  "run_once (example_env soup_relative) (Stored full_store) = Inr full_result
   \<and> saved full_result = Some full_store_after
   \<and> int (length (announcements full_store_after)) \<le> max_announcements
   \<and> length (announcements full_store) = 50
   \<and> length (announcements full_store_after) = 50
   \<and> announcements full_store_after = drop 1 (announcements full_store) @ [relative_record]"
proof -
  have s: "saved full_result = Some full_store_after"
    by (simp add: full_result_def)
  from C4_eviction [OF run_full s] have "int (length (announcements full_store_after)) \<le> max_announcements"
    by blast
  with run_full s show ?thesis
    by (simp add: full_store_def full_store_after_def drop_map)
qed

text \<open>
  C10. Whenever a cycle hands a dictionary to \<open>save_data\<close>, its total_count is the number
  of announcements it retains after eviction, hence at most \<open>max_announcements\<close>; when the
  write succeeds this dictionary is the persisted state. It is not a running total of all
  announcements ever seen.
\<close>

theorem C10_total_count:
  assumes "run_once env f = Inr res" and "saved res = Some d"
  shows "total_count d = int (length (announcements d))
       \<and> total_count d \<le> max_announcements
       \<and> (disk_write env = WriteOk \<longrightarrow> file_after res = Stored d)"
proof -
  from run_once_saved [OF assms] obtain kept where
      d: "d = \<lparr>announcements = kept, last_check = check_clock env,
               total_count = int (length kept)\<rparr>"
      and k: "length kept \<le> nat max_announcements"
      and f: "file_after res = save_data (disk_write env) d"
    by (auto simp: Let_def max_announcements_def)
  from d k f show ?thesis
    by (auto simp: save_data_def max_announcements_def)
qed

text \<open>
  C10 on a store of 50 records and a page with one new record: 51 records have been seen,
  total_count is 50.
\<close>

theorem C10_total_count_witness:
  "run_once (example_env soup_relative) (Stored full_store) = Inr full_result
   \<and> saved full_result = Some full_store_after
   \<and> disk_write (example_env soup_relative) = WriteOk
   \<and> file_after full_result = Stored full_store_after
   \<and> total_count full_store_after = int (length (announcements full_store_after))
   \<and> total_count full_store_after \<le> max_announcements
   \<and> total_count full_store_after = 50
   \<and> length (announcements full_store @ [relative_record]) = 51"
proof -
  have s: "saved full_result = Some full_store_after"
    by (simp add: full_result_def)
  have w: "disk_write (example_env soup_relative) = WriteOk"
    by (simp add: example_env_def)
  from C10_total_count [OF run_full s] w
  have "total_count full_store_after = int (length (announcements full_store_after))
      \<and> total_count full_store_after \<le> max_announcements
      \<and> file_after full_result = Stored full_store_after"
    by blast
  with run_full s w show ?thesis
    by (simp add: full_store_def full_store_after_def)
qed


section \<open>The daemon loop\<close>

text \<open>
  A failed HTTP request does not leave \<open>run_once\<close> as an exception: \<open>fetch_page_content\<close>
  catches it, and \<open>run_once\<close> returns after skipping the check.
\<close>

lemma fetch_failure_returns:
  "http env = RequestFailed \<Longrightarrow>
   run_once env f = Inr \<lparr>effects = [], saved = None, file_after = f\<rparr>"
  by (simp add: run_once_def fetch_page_content_def)

lemma run_once_no_request_exception: "run_once env f \<noteq> Inl RequestException"
  by (cases "http env")
     (auto simp: run_once_def fetch_page_content_def Let_def split: if_splits)

text \<open>
  The handlers of the loop, taken alone: the back-off of the \<^verbatim>\<open>RequestException\<close> handler
  is \<open>min 300 (60 * error_count)\<close> (180 seconds at the third consecutive error), the
  handler of other exceptions sleeps 60 seconds, both stop at the fifth consecutive error,
  and a cycle that returns resets the count.
\<close>

lemma handle_request_exception:
  "handle_outcome n (Inl RequestException) =
     (if n + 1 \<ge> 5 then (n + 1, Break) else (n + 1, Sleep (min 300 (60 * (n + 1)))))"
  by (simp add: handle_outcome_def max_errors_def)

lemma handle_other_exception:
  "handle_outcome n (Inl Exception) =
     (if n + 1 \<ge> 5 then (n + 1, Break) else (n + 1, Sleep 60))"
  by (simp add: handle_outcome_def max_errors_def)

lemma handle_return: "handle_outcome n (Inr res) = (0, Sleep 1200)"
  by (simp add: handle_outcome_def check_interval_def)

lemma third_request_exception: "handle_outcome 2 (Inl RequestException) = (3, Sleep 180)"
  by (simp add: handle_request_exception)

text \<open>
  The ceiling is live for exceptions that do leave \<open>run_once\<close>: five consecutive
  cycles with an exception outside the \<^verbatim>\<open>RequestException\<close> class sleep 60 seconds four
  times and then stop the loop.
\<close>

lemma daemon_other_failures:
  "run_daemon (daemon_start NoFile)
     [Cycle crash_env, Cycle crash_env, Cycle crash_env, Cycle crash_env, Cycle crash_env] =
   \<lparr>error_count = 5, data_file = NoFile, slept = [60, 60, 60, 60], stopped = True\<rparr>"
  by (simp add: daemon_start_def crash_env_def example_env_def try_body_def run_once_def
      fetch_page_content_def handle_other_exception)

text \<open>
  However many cycles fail to fetch the page, the daemon counts no error, sleeps
  \<open>check_interval\<close> after each of them and keeps running.
\<close>

lemma daemon_network_failures:
  assumes "\<forall>ev \<in> set evs. \<exists>env. ev = Cycle env \<and> http env = RequestFailed"
  shows "run_daemon s evs =
           (if evs = [] then s
            else s\<lparr>error_count := 0, slept := slept s @ replicate (length evs) 1200\<rparr>)"
  using assms
proof (induction evs arbitrary: s)
  case Nil
  show ?case by simp
next
  case (Cons ev evs)
  then obtain env where ev: "ev = Cycle env" and down: "http env = RequestFailed"
    by auto
  have step: "run_daemon s (ev # evs) =
      run_daemon (s\<lparr>error_count := 0, slept := slept s @ [1200]\<rparr>) evs"
    by (simp add: ev try_body_def fetch_failure_returns [OF down] handle_return)
  from Cons have "\<forall>ev \<in> set evs. \<exists>env. ev = Cycle env \<and> http env = RequestFailed"
    by simp
  from Cons.IH [OF this] show ?case
    unfolding step by (simp add: replicate_app_Cons_same)
qed

text \<open>
  C3 fails on the code. Five consecutive cycles whose HTTP request raises a
  \<^verbatim>\<open>RequestException\<close> leave the daemon running with \<open>error_count = 0\<close>, having slept
  1200 seconds (\<open>check_interval\<close>) after each: there is no sleep of 180 seconds after the
  third failure and no stop after the fifth.
\<close>

theorem C3_network_failures_ignored:
  "run_daemon (daemon_start NoFile)
     [Cycle net_down_env, Cycle net_down_env, Cycle net_down_env, Cycle net_down_env,
      Cycle net_down_env] =
   \<lparr>error_count = 0, data_file = NoFile, slept = [1200, 1200, 1200, 1200, 1200],
    stopped = False\<rparr>"
  by (simp add: daemon_start_def net_down_env_def example_env_def try_body_def
      fetch_failure_returns handle_return)

end
